theory Spec2Isabelle
  imports
    Complex_Main
    "HOL-Library.Multiset"
    "HOL-Library.Product_Lexorder"
    "HOL-Library.AList"
begin

section \<open>Data model (shared/schema.ts)\<close>

text \<open>
  The two tables of the schema and the derived ranking entry.  The \<open>real\<close> columns and
  the JavaScript numbers read from them are modelled as rationals: the storage operations
  only compare and copy them, and the order of finite floating-point values is the order
  of the rationals they denote.  A generated UUID is a number taken from a counter, a
  timestamp is the value of a clock that is read by a statement and then moves on.
\<close>

datatype status = active | archived

record Contractor =
  c_id :: int
  c_name :: string
  c_personalEmail :: string
  c_workEmail :: string
  c_workLocation :: string
  c_position :: string
  c_startDate :: string
  c_separationDate :: string
  c_birthday :: string
  c_status :: status
  c_contractorType :: string

record ProductivityData =
  p_id :: nat
  p_contractorId :: int
  p_month :: string
  p_productiveHours :: rat
  p_totalHours :: rat
  p_productivity :: rat
  p_createdAt :: nat

record InsertProductivityData =
  i_contractorId :: int
  i_month :: string
  i_productiveHours :: rat
  i_totalHours :: rat
  i_productivity :: rat

record MonthlyRanking =
  r_contractorId :: int
  r_name :: string
  r_hours :: rat
  r_rank :: nat
  r_month :: string


section \<open>DatabaseStorage (server/database-storage.ts)\<close>

text \<open>
  A table is the list of its rows.  \<open>contractors.id\<close> is the primary key and
  \<open>(contractorId, month)\<close> is declared unique on \<open>productivity_data\<close>; there is no
  foreign key from \<open>productivity_data.contractor_id\<close> to \<open>contractors.id\<close>.
\<close>

record DatabaseStorage =
  contractors :: "Contractor list"
  productivityData :: "ProductivityData list"
  clock :: nat
  nextUuid :: nat

definition primaryKeyOk :: "DatabaseStorage \<Rightarrow> bool" where
  "primaryKeyOk db = distinct (map c_id (contractors db))"



definition db_getContractor :: "DatabaseStorage \<Rightarrow> int \<Rightarrow> Contractor option" where
  "db_getContractor db i = find (\<lambda>c. c_id c = i) (contractors db)"

definition db_getAllContractors :: "DatabaseStorage \<Rightarrow> Contractor list" where
  "db_getAllContractors db = contractors db"

definition db_getProductivityData :: "DatabaseStorage \<Rightarrow> int \<Rightarrow> ProductivityData list" where
  "db_getProductivityData db i = filter (\<lambda>p. p_contractorId p = i) (productivityData db)"

definition db_getProductivityDataByMonth :: "DatabaseStorage \<Rightarrow> string \<Rightarrow> ProductivityData list" where
  "db_getProductivityDataByMonth db m = filter (\<lambda>p. p_month p = m) (productivityData db)"

text \<open>\<open>UPDATE contractors SET status = 'archived' WHERE id = ?\<close>; the result is
  \<open>rowCount > 0\<close>.\<close>

definition db_archiveContractor :: "DatabaseStorage \<Rightarrow> int \<Rightarrow> bool \<times> DatabaseStorage" where
  "db_archiveContractor db i =
     (length (filter (\<lambda>c. c_id c = i) (contractors db)) > 0,
      db\<lparr>contractors :=
           map (\<lambda>c. if c_id c = i then c\<lparr>c_status := archived\<rparr> else c) (contractors db)\<rparr>)"

text \<open>\<open>DELETE FROM productivity_data WHERE month = ?\<close>.\<close>

definition db_deleteProductivityByMonth :: "DatabaseStorage \<Rightarrow> string \<Rightarrow> bool \<times> DatabaseStorage" where
  "db_deleteProductivityByMonth db m =
     (length (filter (\<lambda>p. p_month p = m) (productivityData db)) > 0,
      db\<lparr>productivityData := filter (\<lambda>p. p_month p \<noteq> m) (productivityData db)\<rparr>)"

text \<open>The inner join of \<open>productivity_data\<close> with \<open>contractors\<close> on
  \<open>contractors.id = productivity_data.contractor_id\<close>.\<close>

definition innerJoin :: "ProductivityData list \<Rightarrow> Contractor list \<Rightarrow> (ProductivityData \<times> Contractor) list" where
  "innerJoin ps cs =
     concat (map (\<lambda>p. map (\<lambda>c. (p, c)) (filter (\<lambda>c. c_id c = p_contractorId p) cs)) ps)"

text \<open>\<open>ORDER BY productive_hours DESC, productivity DESC\<close> and
  \<open>ORDER BY productive_hours ASC, productivity DESC\<close> as sort keys (pairs are ordered
  lexicographically).\<close>

definition descHoursDescProductivity :: "ProductivityData \<times> Contractor \<Rightarrow> rat \<times> rat" where
  "descHoursDescProductivity row = (- p_productiveHours (fst row), - p_productivity (fst row))"

definition ascHoursDescProductivity :: "ProductivityData \<times> Contractor \<Rightarrow> rat \<times> rat" where
  "ascHoursDescProductivity row = (p_productiveHours (fst row), - p_productivity (fst row))"

definition toRanking :: "nat \<times> ProductivityData \<times> Contractor \<Rightarrow> MonthlyRanking" where
  "toRanking ir =
     \<lparr>r_contractorId = p_contractorId (fst (snd ir)),
      r_name = c_name (snd (snd ir)),
      r_hours = p_productiveHours (fst (snd ir)),
      r_rank = fst ir + 1,
      r_month = p_month (fst (snd ir))\<rparr>"

text \<open>The rows the query of \<open>getMonthlyRankings\<close> returns, and the operation itself
  (\<open>result.map((row, index) => ... rank: index + 1 ...)\<close>).\<close>

definition db_rankingRows :: "DatabaseStorage \<Rightarrow> string \<Rightarrow> (ProductivityData \<times> Contractor) list" where
  "db_rankingRows db m =
     sort_key descHoursDescProductivity
       (filter (\<lambda>row. p_month (fst row) = m) (innerJoin (productivityData db) (contractors db)))"

definition db_getMonthlyRankings :: "DatabaseStorage \<Rightarrow> string \<Rightarrow> MonthlyRanking list" where
  "db_getMonthlyRankings db m = map toRanking (enumerate 0 (db_rankingRows db m))"

definition db_getTopPerformers :: "DatabaseStorage \<Rightarrow> string \<Rightarrow> nat \<Rightarrow> MonthlyRanking list" where
  "db_getTopPerformers db m limit = take limit (db_getMonthlyRankings db m)"

text \<open>The WHERE clause of \<open>getUnderPerformers\<close>; the \<open>threshold\<close> argument of the
  operation is not used by the code.\<close>

definition underPerforming :: "string \<Rightarrow> ProductivityData \<times> Contractor \<Rightarrow> bool" where
  "underPerforming m row =
     (p_month (fst row) = m \<and> p_productiveHours (fst row) > 0 \<and>
      ((c_contractorType (snd row) = ''Full Time'' \<and> p_productiveHours (fst row) < 100) \<or>
       (c_contractorType (snd row) = ''Part Time'' \<and> p_productiveHours (fst row) < 50)))"

definition db_underPerformerRows :: "DatabaseStorage \<Rightarrow> string \<Rightarrow> (ProductivityData \<times> Contractor) list" where
  "db_underPerformerRows db m =
     sort_key ascHoursDescProductivity
       (filter (underPerforming m) (innerJoin (productivityData db) (contractors db)))"

definition db_getUnderPerformers :: "DatabaseStorage \<Rightarrow> string \<Rightarrow> rat \<Rightarrow> MonthlyRanking list" where
  "db_getUnderPerformers db m threshold = map toRanking (enumerate 0 (db_underPerformerRows db m))"

text \<open>
  One statement of \<open>bulkCreateProductivityData\<close>:
  \<open>INSERT ... ON CONFLICT (contractor_id, month) DO UPDATE SET productive_hours, total_hours,
  productivity, created_at = NOW() RETURNING *\<close>.  A new row gets a generated id and the
  default \<open>created_at\<close>.
\<close>

definition conflicts :: "InsertProductivityData \<Rightarrow> ProductivityData \<Rightarrow> bool" where
  "conflicts item p = (p_contractorId p = i_contractorId item \<and> p_month p = i_month item)"

definition onConflictSet :: "InsertProductivityData \<Rightarrow> nat \<Rightarrow> ProductivityData \<Rightarrow> ProductivityData" where
  "onConflictSet item now p =
     p\<lparr>p_productiveHours := i_productiveHours item,
       p_totalHours := i_totalHours item,
       p_productivity := i_productivity item,
       p_createdAt := now\<rparr>"

definition newRow :: "InsertProductivityData \<Rightarrow> nat \<Rightarrow> nat \<Rightarrow> ProductivityData" where
  "newRow item uuid now =
     \<lparr>p_id = uuid,
      p_contractorId = i_contractorId item,
      p_month = i_month item,
      p_productiveHours = i_productiveHours item,
      p_totalHours = i_totalHours item,
      p_productivity = i_productivity item,
      p_createdAt = now\<rparr>"

definition db_upsert :: "DatabaseStorage \<Rightarrow> InsertProductivityData \<Rightarrow> ProductivityData \<times> DatabaseStorage" where
  "db_upsert db item =
     (case find (conflicts item) (productivityData db) of
        Some old \<Rightarrow>
          (onConflictSet item (clock db) old,
           db\<lparr>productivityData :=
                map (\<lambda>p. if conflicts item p then onConflictSet item (clock db) p else p)
                    (productivityData db),
              clock := clock db + 1\<rparr>)
      | None \<Rightarrow>
          (newRow item (nextUuid db) (clock db),
           db\<lparr>productivityData := productivityData db @ [newRow item (nextUuid db) (clock db)],
              clock := clock db + 1,
              nextUuid := nextUuid db + 1\<rparr>))"

text \<open>The loop \<open>for (const item of data) { ...; results.push(result) }\<close>.\<close>

fun db_bulkLoop :: "ProductivityData list \<Rightarrow> DatabaseStorage \<Rightarrow> InsertProductivityData list
    \<Rightarrow> ProductivityData list \<times> DatabaseStorage" where
  "db_bulkLoop results db [] = (results, db)"
| "db_bulkLoop results db (item # rest) =
     (case db_upsert db item of (result, db') \<Rightarrow> db_bulkLoop (results @ [result]) db' rest)"

definition db_bulkCreateProductivityData :: "DatabaseStorage \<Rightarrow> InsertProductivityData list
    \<Rightarrow> ProductivityData list \<times> DatabaseStorage" where
  "db_bulkCreateProductivityData db data =
     (if length data = 0 then ([], db) else db_bulkLoop [] db data)"

text \<open>\<open>createProductivityData\<close> is a plain INSERT: the unique constraint makes the
  statement fail when the pair is already stored.\<close>

datatype db_error = UniqueViolation

definition db_createProductivityData :: "DatabaseStorage \<Rightarrow> InsertProductivityData
    \<Rightarrow> db_error + (ProductivityData \<times> DatabaseStorage)" where
  "db_createProductivityData db item =
     (case find (conflicts item) (productivityData db) of
        Some old \<Rightarrow> Inl UniqueViolation
      | None \<Rightarrow>
          Inr (newRow item (nextUuid db) (clock db),
               db\<lparr>productivityData := productivityData db @ [newRow item (nextUuid db) (clock db)],
                  clock := clock db + 1,
                  nextUuid := nextUuid db + 1\<rparr>))"


section \<open>MemStorage (server/storage.ts)\<close>

text \<open>
  A JavaScript \<open>Map\<close> is an association list in insertion order: \<open>get\<close> is
  \<open>map_of\<close>, \<open>set\<close> replaces the value of a present key in place and appends a new
  key (\<open>AList.update\<close>), \<open>values()\<close> is \<open>map snd\<close>.  The key
  \<open>`${contractorId}-${month}`\<close> of the productivity map is kept as the pair it renders.
\<close>

record MemStorage =
  m_contractors :: "(int \<times> Contractor) list"
  m_productivityData :: "((int \<times> string) \<times> ProductivityData) list"
  m_clock :: nat
  m_nextUuid :: nat

definition mem_getContractor :: "MemStorage \<Rightarrow> int \<Rightarrow> Contractor option" where
  "mem_getContractor st i = map_of (m_contractors st) i"

definition mem_getAllContractors :: "MemStorage \<Rightarrow> Contractor list" where
  "mem_getAllContractors st = map snd (m_contractors st)"

definition mem_getProductivityDataByMonth :: "MemStorage \<Rightarrow> string \<Rightarrow> ProductivityData list" where
  "mem_getProductivityDataByMonth st m = filter (\<lambda>d. p_month d = m) (map snd (m_productivityData st))"

definition mem_archiveContractor :: "MemStorage \<Rightarrow> int \<Rightarrow> bool \<times> MemStorage" where
  "mem_archiveContractor st i =
     (case map_of (m_contractors st) i of
        None \<Rightarrow> (False, st)
      | Some existing \<Rightarrow>
          (True, st\<lparr>m_contractors :=
                      AList.update i (existing\<lparr>c_status := archived\<rparr>) (m_contractors st)\<rparr>))"

text \<open>\<open>contractor?.name || 'Unknown'\<close>: a missing contractor and an empty name both
  give \<open>'Unknown'\<close>.\<close>

definition nameOrUnknown :: "Contractor option \<Rightarrow> string" where
  "nameOrUnknown c = (case c of None \<Rightarrow> ''Unknown''
                      | Some x \<Rightarrow> (if c_name x = [] then ''Unknown'' else c_name x))"

definition mem_entry :: "Contractor list \<Rightarrow> string \<Rightarrow> ProductivityData \<Rightarrow> MonthlyRanking" where
  "mem_entry cs m d =
     \<lparr>r_contractorId = p_contractorId d,
      r_name = nameOrUnknown (find (\<lambda>c. c_id c = p_contractorId d) cs),
      r_hours = p_productiveHours d,
      r_rank = 0,
      r_month = m\<rparr>"

definition setRank :: "nat \<times> MonthlyRanking \<Rightarrow> MonthlyRanking" where
  "setRank ir = (snd ir)\<lparr>r_rank := fst ir + 1\<rparr>"

text \<open>\<open>Array.prototype.sort\<close> is stable; the comparators are
  \<open>(a, b) => b.hours - a.hours\<close> and \<open>(a, b) => a.hours - b.hours\<close>.\<close>

definition mem_getMonthlyRankings :: "MemStorage \<Rightarrow> string \<Rightarrow> MonthlyRanking list" where
  "mem_getMonthlyRankings st m =
     map setRank (enumerate 0
       (sort_key (\<lambda>a. - r_hours a)
          (map (mem_entry (mem_getAllContractors st) m) (mem_getProductivityDataByMonth st m))))"

definition mem_underPerforming :: "Contractor list \<Rightarrow> ProductivityData \<Rightarrow> bool" where
  "mem_underPerforming cs d =
     (case find (\<lambda>c. c_id c = p_contractorId d) cs of
        None \<Rightarrow> False
      | Some contractor \<Rightarrow>
          if p_productiveHours d \<le> 0 then False
          else p_productiveHours d < (if c_contractorType contractor = ''Part Time'' then 50 else 100))"

definition mem_getUnderPerformers :: "MemStorage \<Rightarrow> string \<Rightarrow> rat \<Rightarrow> MonthlyRanking list" where
  "mem_getUnderPerformers st m threshold =
     map setRank (enumerate 0
       (sort_key r_hours
          (map (mem_entry (mem_getAllContractors st) m)
             (filter (mem_underPerforming (mem_getAllContractors st))
                (mem_getProductivityDataByMonth st m)))))"

definition mem_createProductivityData :: "MemStorage \<Rightarrow> InsertProductivityData \<Rightarrow> ProductivityData \<times> MemStorage" where
  "mem_createProductivityData st item =
     (newRow item (m_nextUuid st) (m_clock st),
      st\<lparr>m_productivityData :=
            AList.update (i_contractorId item, i_month item)
              (newRow item (m_nextUuid st) (m_clock st)) (m_productivityData st),
         m_clock := m_clock st + 1,
         m_nextUuid := m_nextUuid st + 1\<rparr>)"

definition mem_upsert :: "MemStorage \<Rightarrow> InsertProductivityData \<Rightarrow> ProductivityData \<times> MemStorage" where
  "mem_upsert st item =
     (case map_of (m_productivityData st) (i_contractorId item, i_month item) of
        Some existing \<Rightarrow>
          (onConflictSet item (m_clock st) existing,
           st\<lparr>m_productivityData :=
                 AList.update (i_contractorId item, i_month item)
                   (onConflictSet item (m_clock st) existing) (m_productivityData st),
              m_clock := m_clock st + 1\<rparr>)
      | None \<Rightarrow> mem_createProductivityData st item)"

fun mem_bulkLoop :: "ProductivityData list \<Rightarrow> MemStorage \<Rightarrow> InsertProductivityData list
    \<Rightarrow> ProductivityData list \<times> MemStorage" where
  "mem_bulkLoop results st [] = (results, st)"
| "mem_bulkLoop results st (item # rest) =
     (case mem_upsert st item of (result, st') \<Rightarrow> mem_bulkLoop (results @ [result]) st' rest)"

definition mem_bulkCreateProductivityData :: "MemStorage \<Rightarrow> InsertProductivityData list
    \<Rightarrow> ProductivityData list \<times> MemStorage" where
  "mem_bulkCreateProductivityData st data = mem_bulkLoop [] st data"


section \<open>Strings and numbers of the JavaScript code\<close>

text \<open>
  A string is the list of its UTF-8 bytes.  White space (\<open>\s\<close>, \<open>trim\<close>, the skipping
  of \<open>parseInt\<close> and \<open>parseFloat\<close>) is the ASCII white space: tab, line feed, vertical
  tab, form feed, carriage return and space; \<open>toLowerCase\<close> maps \<open>A\<close> to \<open>Z\<close>.
  The texts handled are assumed to hold no other white space or cased letters of Unicode
  (JavaScript also trims a byte order mark; the code removes it from the headers by a
  \<open>replace\<close> of its own, which is modelled).
  A JavaScript number is \<open>NaN\<close>, an infinity, or a finite value, which is modelled by the
  rational it denotes: arithmetic is exact, the rounding of floating point is not modelled.
\<close>

datatype number = NaN | PosInfinity | NegInfinity | Num rat

definition tab :: char where "tab = CHR 0x09"
definition newline :: char where "newline = CHR 0x0A"
definition carriageReturn :: char where "carriageReturn = CHR 0x0D"
definition dquote :: char where "dquote = CHR 0x22"
definition squote :: char where "squote = CHR 0x27"

definition isSpace :: "char \<Rightarrow> bool" where
  "isSpace c = (c \<in> set [CHR 0x09, CHR 0x0A, CHR 0x0B, CHR 0x0C, CHR 0x0D, CHR 0x20])"

definition isDigit :: "char \<Rightarrow> bool" where
  "isDigit c = (c \<in> set ''0123456789'')"

definition isLetter :: "char \<Rightarrow> bool" where
  "isLetter c = (c \<in> set ''ABCDEFGHIJKLMNOPQRSTUVWXYZabcdefghijklmnopqrstuvwxyz'')"

text \<open>The class \<open>\w\<close> of a regular expression: letters, digits and the underscore.\<close>

definition isWordChar :: "char \<Rightarrow> bool" where
  "isWordChar c = (isLetter c \<or> isDigit c \<or> c = CHR ''_'')"

definition isHexDigit :: "char \<Rightarrow> bool" where
  "isHexDigit c = (c \<in> set ''0123456789abcdefABCDEF'')"

definition digitVal :: "char \<Rightarrow> nat" where
  "digitVal c = length (takeWhile (\<lambda>d. d \<noteq> c) ''0123456789'')"

definition hexVal :: "char \<Rightarrow> nat" where
  "hexVal c = (if isDigit c then digitVal c
               else if c \<in> set ''abcdef'' then 10 + length (takeWhile (\<lambda>d. d \<noteq> c) ''abcdef'')
               else 10 + length (takeWhile (\<lambda>d. d \<noteq> c) ''ABCDEF''))"

definition decValue :: "string \<Rightarrow> nat" where
  "decValue ds = foldl (\<lambda>a c. 10 * a + digitVal c) 0 ds"

definition hexValue :: "string \<Rightarrow> nat" where
  "hexValue ds = foldl (\<lambda>a c. 16 * a + hexVal c) 0 ds"

definition toLowerChar :: "char \<Rightarrow> char" where
  "toLowerChar c =
     (case map_of (zip ''ABCDEFGHIJKLMNOPQRSTUVWXYZ'' ''abcdefghijklmnopqrstuvwxyz'') c of
        None \<Rightarrow> c | Some l \<Rightarrow> l)"

definition toLowerCase :: "string \<Rightarrow> string" where
  "toLowerCase s = map toLowerChar s"

definition trim :: "string \<Rightarrow> string" where
  "trim s = rev (dropWhile isSpace (rev (dropWhile isSpace s)))"

text \<open>\<open>s.split(c)\<close> for a separator of one character.\<close>

fun splitLoop :: "char \<Rightarrow> string \<Rightarrow> string \<Rightarrow> string list" where
  "splitLoop sep cur [] = [cur]"
| "splitLoop sep cur (c # cs) =
     (if c = sep then cur # splitLoop sep [] cs else splitLoop sep (cur @ [c]) cs)"

definition split :: "char \<Rightarrow> string \<Rightarrow> string list" where
  "split sep s = splitLoop sep [] s"

text \<open>\<open>xs.join(sep)\<close>.\<close>

fun join :: "string \<Rightarrow> string list \<Rightarrow> string" where
  "join sep [] = []"
| "join sep [x] = x"
| "join sep (x # y # ys) = x @ sep @ join sep (y # ys)"

text \<open>\<open>s.replace(/\s+/g, ' ')\<close>.\<close>

function collapseSpaces :: "string \<Rightarrow> string" where
  "collapseSpaces [] = []"
| "collapseSpaces (c # cs) =
     (if isSpace c then CHR 0x20 # collapseSpaces (dropWhile isSpace cs)
      else c # collapseSpaces cs)"
  by pat_completeness auto
termination
  by (relation "measure length") (auto simp: length_dropWhile_le less_Suc_eq_le)

text \<open>\<open>s.replace(/"/g, '')\<close>, the removal of every byte order mark (U+FEFF, the bytes EF BB BF) and \<open>s.replace('%', '')\<close>, which removes the first occurrence only.\<close>

definition BOM :: string where
  "BOM = [CHR 0xEF, CHR 0xBB, CHR 0xBF]"

definition removeQuotes :: "string \<Rightarrow> string" where
  "removeQuotes s = filter (\<lambda>c. c \<noteq> dquote) s"

fun removeBOM :: "string \<Rightarrow> string" where
  "removeBOM (a # b # c # rest) =
     (if [a, b, c] = BOM then removeBOM rest else a # removeBOM (b # c # rest))"
| "removeBOM s = s"

definition removeFirstPercent :: "string \<Rightarrow> string" where
  "removeFirstPercent s = remove1 (CHR ''%'') s"

text \<open>
  \<open>parseInt(s)\<close> without a radix: leading white space and a sign are skipped, a prefix
  \<open>0x\<close> or \<open>0X\<close> selects radix 16, the longest prefix of digits is read; no digit gives
  \<open>NaN\<close>, here \<open>None\<close>.
\<close>

definition stripSign :: "string \<Rightarrow> bool \<times> string" where
  "stripSign s =
     (case s of
        [] \<Rightarrow> (False, [])
      | c # cs \<Rightarrow> if c = CHR ''-'' then (True, cs) else if c = CHR ''+'' then (False, cs) else (False, s))"

definition hasHexPrefix :: "string \<Rightarrow> bool" where
  "hasHexPrefix s = (take 2 s = ''0x'' \<or> take 2 s = ''0X'')"

definition parseInt :: "string \<Rightarrow> int option" where
  "parseInt s =
     (let (neg, t) = stripSign (dropWhile isSpace s);
          digits = (if hasHexPrefix t then takeWhile isHexDigit (drop 2 t) else takeWhile isDigit t);
          v = (if hasHexPrefix t then hexValue digits else decValue digits)
      in if digits = [] then None
         else Some (if neg then - int v else int v))"

text \<open>
  \<open>parseFloat(s)\<close>: leading white space is skipped, then the longest prefix that is a
  decimal literal is read: a sign, then \<open>Infinity\<close> or digits with an optional fraction
  and an optional exponent (an exponent counts only when it has a digit).
\<close>

definition exponentOf :: "string \<Rightarrow> int" where
  "exponentOf r =
     (case r of
        [] \<Rightarrow> 0
      | e # rest \<Rightarrow>
          if e = CHR ''e'' \<or> e = CHR ''E'' then
            (let (neg, t) = stripSign rest; ds = takeWhile isDigit t
             in if ds = [] then 0 else if neg then - int (decValue ds) else int (decValue ds))
          else 0)"

definition scale10 :: "rat \<Rightarrow> int \<Rightarrow> rat" where
  "scale10 x e = (if e \<ge> 0 then x * 10 ^ nat e else x / 10 ^ nat (- e))"

definition parseFloat :: "string \<Rightarrow> number" where
  "parseFloat s =
     (let (neg, t) = stripSign (dropWhile isSpace s) in
      if take 8 t = ''Infinity'' then (if neg then NegInfinity else PosInfinity)
      else
        let ip = takeWhile isDigit t;
            r1 = dropWhile isDigit t;
            hasDot = (r1 \<noteq> [] \<and> hd r1 = CHR ''.'');
            fp = (if hasDot then takeWhile isDigit (tl r1) else []);
            r2 = (if hasDot then dropWhile isDigit (tl r1) else r1);
            mantissa = (of_nat (decValue ip) + of_nat (decValue fp) / 10 ^ length fp :: rat);
            v = scale10 mantissa (exponentOf r2)
        in if ip = [] \<and> fp = [] then NaN
           else Num (if neg then - v else v))"

text \<open>\<open>x || 0\<close> on a number: \<open>NaN\<close> and zero are falsy.\<close>

definition orZero :: "number \<Rightarrow> number" where
  "orZero x = (case x of NaN \<Rightarrow> Num 0 | _ \<Rightarrow> x)"

definition intOrZero :: "int option \<Rightarrow> int" where
  "intOrZero x = (case x of None \<Rightarrow> 0 | Some v \<Rightarrow> v)"

text \<open>The comparisons \<open>a < b\<close> and \<open>a > b\<close> of JavaScript: false when a side is \<open>NaN\<close>.\<close>

fun numLess :: "number \<Rightarrow> number \<Rightarrow> bool" where
  "numLess NaN _ = False"
| "numLess _ NaN = False"
| "numLess (Num a) (Num b) = (a < b)"
| "numLess NegInfinity NegInfinity = False"
| "numLess NegInfinity _ = True"
| "numLess _ NegInfinity = False"
| "numLess PosInfinity _ = False"
| "numLess _ PosInfinity = True"

definition numGreater :: "number \<Rightarrow> number \<Rightarrow> bool" where
  "numGreater a b = numLess b a"

definition numLessEq :: "number \<Rightarrow> number \<Rightarrow> bool" where
  "numLessEq a b = (numLess a b \<or> (a \<noteq> NaN \<and> a = b))"


section \<open>The productivity upload (server/routes.ts)\<close>

text \<open>\<open>parseCSVLine\<close>: the loop over the characters of a line, with the fields read so
  far, the field being read and the quote state.\<close>

fun parseCSVLineLoop :: "string list \<Rightarrow> string \<Rightarrow> bool \<Rightarrow> string \<Rightarrow> string list" where
  "parseCSVLineLoop result current inQuotes [] = result @ [trim current]"
| "parseCSVLineLoop result current inQuotes (c # cs) =
     (if c = dquote then
        (case cs of
           [] \<Rightarrow> parseCSVLineLoop result current (\<not> inQuotes) cs
         | d # ds \<Rightarrow>
             if inQuotes \<and> d = dquote then parseCSVLineLoop result (current @ [dquote]) inQuotes ds
             else parseCSVLineLoop result current (\<not> inQuotes) cs)
      else if c = CHR '','' \<and> \<not> inQuotes then
        parseCSVLineLoop (result @ [trim current]) [] inQuotes cs
      else parseCSVLineLoop result (current @ [c]) inQuotes cs)"

definition parseCSVLine :: "string \<Rightarrow> string list" where
  "parseCSVLine line = parseCSVLineLoop [] [] False line"

text \<open>\<open>headersMatch\<close>: equal length, then position by position after
  \<open>trim().toLowerCase().replace(/\s+/g, ' ')\<close>.\<close>

definition normalizeHeader :: "string \<Rightarrow> string" where
  "normalizeHeader h = collapseSpaces (toLowerCase (trim h))"

definition headersMatch :: "string list \<Rightarrow> string list \<Rightarrow> bool" where
  "headersMatch received expected =
     (if length received \<noteq> length expected then False
      else list_all (\<lambda>i. normalizeHeader (received ! i) = normalizeHeader (expected ! i))
             [0..<length expected])"

definition expectedHeaders :: "string list" where
  "expectedHeaders = [''Emp No.'', ''Name'', ''Month'', ''Productive Hours'', ''Hours'', ''Productivity'']"

definition rosterHeaders :: "string list" where
  "rosterHeaders = [''Name'', ''ID'', ''Personal Email'', ''Work Email'', ''Work Location'',
                    ''Position'', ''Start Date'', ''Separation Date'', ''Birthday'']"

definition cleanHeader :: "string \<Rightarrow> string" where
  "cleanHeader h = removeBOM (removeQuotes (trim h))"

definition nonBlankLines :: "string \<Rightarrow> string list" where
  "nonBlankLines csvContent = filter (\<lambda>line. trim line \<noteq> []) (split newline csvContent)"

text \<open>The month column: \<open>/^\d{2}-\w{3}$/\<close>, then the two parts of \<open>split('-')\<close> are
  swapped.  A text that matches has exactly two parts.\<close>

definition matchesDayMonth :: "string \<Rightarrow> bool" where
  "matchesDayMonth s =
     (length s = 6 \<and> isDigit (s ! 0) \<and> isDigit (s ! 1) \<and> s ! 2 = CHR ''-'' \<and>
      isWordChar (s ! 3) \<and> isWordChar (s ! 4) \<and> isWordChar (s ! 5))"

definition fixMonth :: "string \<Rightarrow> string" where
  "fixMonth month =
     (if matchesDayMonth month then
        (case split (CHR ''-'') month of
           day # monthName # _ \<Rightarrow> monthName @ ''-'' @ day
         | _ \<Rightarrow> month)
      else month)"

text \<open>The productive hours column: \<open>const [h, m, s] = str.split(':').map(n => parseInt(n))\<close>
  and \<open>h + (m / 60) + (s / 3600)\<close>; a missing part is \<open>undefined\<close> and the sum is
  \<open>NaN\<close> as soon as one of the three is.\<close>

fun hmsSum :: "int option list \<Rightarrow> number" where
  "hmsSum (Some h # Some m # Some s # rest) = Num (of_int h + of_int m / 60 + of_int s / 3600)"
| "hmsSum parts = NaN"

definition routes_productiveHours :: "string \<Rightarrow> number" where
  "routes_productiveHours productiveHoursStr =
     (if productiveHoursStr \<noteq> [] \<and> trim productiveHoursStr \<noteq> [] \<and> CHR '':'' \<in> set productiveHoursStr then
        hmsSum (map parseInt (split (CHR '':'') productiveHoursStr))
      else if productiveHoursStr \<noteq> [] \<and> trim productiveHoursStr \<noteq> [] then
        orZero (parseFloat productiveHoursStr)
      else Num 0)"

definition times100 :: "number \<Rightarrow> number" where
  "times100 x = (case x of Num r \<Rightarrow> Num (r * 100) | _ \<Rightarrow> x)"

definition routes_productivity :: "string \<Rightarrow> number" where
  "routes_productivity col =
     (let productivityStr = trim (removeFirstPercent col) in
      if productivityStr = [] then Num 0
      else
        let productivityValue = parseFloat productivityStr in
        if numGreater productivityValue (Num 0) \<and> numLessEq productivityValue (Num 1)
        then times100 productivityValue
        else productivityValue)"

text \<open>
  The error messages of a row, by their template: \<open>Row n: Insufficient columns (expected 6,
  got k)\<close>, \<open>Row n: Contractor e (name) not found in roster\<close> and \<open>Row n: message\<close> for
  an exception raised while the row is handled.
\<close>

datatype row_error =
    InsufficientColumns nat nat
  | ContractorNotFound nat "int option" string
  | RowException nat string


text \<open>
  The object a row is turned into, before \<open>insertProductivityDataSchema.parse\<close>.  The
  schema is generated by a library from the table definition; its check is a parameter of
  the model: it raises with a message, or lets the row through, whose numbers are then
  finite and stored as they are.
\<close>

record RowData =
  d_contractorId :: int
  d_month :: string
  d_productiveHours :: number
  d_totalHours :: number
  d_productivity :: number

type_synonym schema = "RowData \<Rightarrow> string + InsertProductivityData"

text \<open>The body of the loop over the data rows, for the row at index \<open>i\<close>: the error
  pushed, or the object pushed.  A lookup of \<open>NaN\<close> finds no contractor (where the
  database driver raises instead, the \<open>catch\<close> of the loop pushes an error of the same
  row).\<close>

definition processRow :: "schema \<Rightarrow> DatabaseStorage \<Rightarrow> nat \<Rightarrow> string \<Rightarrow> row_error + InsertProductivityData" where
  "processRow insertSchema db i line =
     (let columns = parseCSVLine line in
      if length columns < 6 then Inl (InsufficientColumns (i + 2) (length columns))
      else
        let empNo = parseInt (columns ! 0);
            name = columns ! 1;
            hours = orZero (parseFloat (columns ! 4));
            month = fixMonth (columns ! 2);
            productiveHours = routes_productiveHours (columns ! 3);
            productivity = routes_productivity (columns ! 5)
        in case empNo of
             None \<Rightarrow> Inl (ContractorNotFound (i + 2) None name)
           | Some e \<Rightarrow>
               (case db_getContractor db e of
                  None \<Rightarrow> Inl (ContractorNotFound (i + 2) (Some e) name)
                | Some contractor \<Rightarrow>
                    (case insertSchema \<lparr>d_contractorId = e, d_month = month,
                                        d_productiveHours = productiveHours,
                                        d_totalHours = hours,
                                        d_productivity = productivity\<rparr> of
                       Inl msg \<Rightarrow> Inl (RowException (i + 2) msg)
                     | Inr item \<Rightarrow> Inr item)))"

fun uploadLoop :: "schema \<Rightarrow> DatabaseStorage \<Rightarrow> nat \<Rightarrow> string list
    \<Rightarrow> InsertProductivityData list \<Rightarrow> row_error list
    \<Rightarrow> InsertProductivityData list \<times> row_error list" where
  "uploadLoop insertSchema db i [] productivity errors = (productivity, errors)"
| "uploadLoop insertSchema db i (row # rest) productivity errors =
     (case processRow insertSchema db i row of
        Inl e \<Rightarrow> uploadLoop insertSchema db (i + 1) rest productivity (errors @ [e])
      | Inr d \<Rightarrow> uploadLoop insertSchema db (i + 1) rest (productivity @ [d]) errors)"

datatype upload_response =
    TooFewLines
  | RosterFileGuidance "string list" "string list"
  | HeadersMismatch "string list" "string list"
  | NoValidData "row_error list"
  | Processed nat "row_error list option" "ProductivityData list"

definition uploadCsv :: "schema \<Rightarrow> DatabaseStorage \<Rightarrow> string \<Rightarrow> upload_response \<times> DatabaseStorage" where
  "uploadCsv insertSchema db csvContent =
     (let lines = nonBlankLines csvContent in
      if length lines < 2 then (TooFewLines, db)
      else
        let headers = map cleanHeader (parseCSVLine (hd lines)) in
        if \<not> headersMatch headers expectedHeaders then
          (if headersMatch headers rosterHeaders
           then (RosterFileGuidance expectedHeaders headers, db)
           else (HeadersMismatch expectedHeaders headers, db))
        else
          (case uploadLoop insertSchema db 0 (tl lines) [] [] of
             (productivity, errors) \<Rightarrow>
               if length errors > 0 \<and> length productivity = 0
               then (NoValidData (take 10 errors), db)
               else
                 (case db_bulkCreateProductivityData db productivity of
                    (insertedData, db') \<Rightarrow>
                      (Processed (length insertedData)
                         (if length errors > 0 then Some (take 10 errors) else None)
                         insertedData,
                       db'))))"


section \<open>The roster upload: the header check (server/routes.ts)\<close>

text \<open>\<open>expectedHeaders.every((header, index) => headers[index] === header)\<close>; an index
  past the end of \<open>headers\<close> reads \<open>undefined\<close>, which equals no header.\<close>

definition rosterHeadersAccepted :: "string list \<Rightarrow> bool" where
  "rosterHeadersAccepted headers =
     list_all (\<lambda>ih. fst ih < length headers \<and> headers ! (fst ih) = snd ih)
       (enumerate 0 rosterHeaders)"

datatype roster_header_result =
    RosterTooFewLines
  | RosterHeadersMismatch "string list" "string list"
  | RosterHeadersOk

definition uploadRosterHeaders :: "string \<Rightarrow> roster_header_result" where
  "uploadRosterHeaders csvContent =
     (let lines = nonBlankLines csvContent in
      if length lines < 2 then RosterTooFewLines
      else
        let headers = map cleanHeader (split (CHR '','') (hd lines)) in
        if \<not> rosterHeadersAccepted headers then RosterHeadersMismatch rosterHeaders headers
        else RosterHeadersOk)"


section \<open>CSVParser: the record validator (client/src/lib/csv-parser.ts)\<close>


definition parseProductiveHours :: "string \<Rightarrow> number" where
  "parseProductiveHours productiveHoursStr =
     (let parts = split (CHR '':'') productiveHoursStr in
      if CHR '':'' \<in> set productiveHoursStr \<and> length parts \<ge> 2 then
        Num (of_int (intOrZero (parseInt (parts ! 0)))
             + of_int (intOrZero (parseInt (parts ! 1))) / 60
             + of_int (if length parts > 2 then intOrZero (parseInt (parts ! 2)) else 0) / 3600)
      else
        (case parseFloat productiveHoursStr of NaN \<Rightarrow> Num 0 | parsed \<Rightarrow> parsed))"













section \<open>CSV export (server/csv-utils.ts and client/src/lib/csv-utils.ts)\<close>

text \<open>A field is a string, a number, \<open>null\<close> or \<open>undefined\<close>; the numbers written by the
  exports are integers, and \<open>String(n)\<close> is their decimal numeral.\<close>

datatype csv_value = CsvNull | CsvUndefined | CsvString string | CsvNumber int

function showNat :: "nat \<Rightarrow> string" where
  "showNat n = (if n < 10 then [''0123456789'' ! n]
                else showNat (n div 10) @ [''0123456789'' ! (n mod 10)])"
  by pat_completeness auto
termination
  by (relation "measure id") auto

definition showInt :: "int \<Rightarrow> string" where
  "showInt i = (if i < 0 then CHR ''-'' # showNat (nat (- i)) else showNat (nat i))"

text \<open>\<open>/^[=+\-@\t]/.test(s)\<close>.\<close>

definition startsWithFormulaChar :: "string \<Rightarrow> bool" where
  "startsWithFormulaChar s =
     (case s of [] \<Rightarrow> False | c # cs \<Rightarrow> c \<in> set [CHR ''='', CHR ''+'', CHR ''-'', CHR ''@'', tab])"

definition needsQuoting :: "string \<Rightarrow> bool" where
  "needsQuoting s =
     (CHR '','' \<in> set s \<or> dquote \<in> set s \<or> newline \<in> set s \<or> carriageReturn \<in> set s)"

definition doubleQuotes :: "string \<Rightarrow> string" where
  "doubleQuotes s = concat (map (\<lambda>c. if c = dquote then [dquote, dquote] else [c]) s)"

definition neutralize :: "string \<Rightarrow> string" where
  "neutralize stringValue =
     (if startsWithFormulaChar (trim stringValue) then squote # stringValue else stringValue)"

definition quoteIfNeeded :: "string \<Rightarrow> string" where
  "quoteIfNeeded stringValue =
     (if needsQuoting stringValue then [dquote] @ doubleQuotes stringValue @ [dquote]
      else stringValue)"

definition escapeCsvField :: "csv_value \<Rightarrow> string" where
  "escapeCsvField v =
     (case v of
        CsvNull \<Rightarrow> []
      | CsvUndefined \<Rightarrow> []
      | CsvString s \<Rightarrow> quoteIfNeeded (neutralize s)
      | CsvNumber n \<Rightarrow> quoteIfNeeded (neutralize (showInt n)))"

definition generateCsv :: "csv_value list list \<Rightarrow> string" where
  "generateCsv data = BOM @ join [newline] (map (\<lambda>row. join '','' (map escapeCsvField row)) data)"

text \<open>The client's \<open>escapeCsvValue\<close> and \<open>createCsvContent\<close> are written the same way.\<close>

definition escapeCsvValue :: "csv_value \<Rightarrow> string" where
  "escapeCsvValue v =
     (case v of
        CsvNull \<Rightarrow> []
      | CsvUndefined \<Rightarrow> []
      | CsvString s \<Rightarrow> quoteIfNeeded (neutralize s)
      | CsvNumber n \<Rightarrow> quoteIfNeeded (neutralize (showInt n)))"

definition createCsvContent :: "string list \<Rightarrow> csv_value list list \<Rightarrow> string" where
  "createCsvContent headers rows =
     BOM @ join [newline]
       (join '','' (map (\<lambda>h. escapeCsvValue (CsvString h)) headers)
        # map (\<lambda>row. join '','' (map escapeCsvValue row)) rows)"


section \<open>Sequences of storage operations\<close>

text \<open>
  The writes the server performs on the stores, apart from the creation and the update
  of a contractor, and their effect in sequence.  A failed \<open>createProductivityData\<close>
  leaves the store as it was.
\<close>

definition mem_deleteProductivityByMonth :: "MemStorage \<Rightarrow> string \<Rightarrow> bool \<times> MemStorage" where
  "mem_deleteProductivityByMonth st m =
     (length (filter (\<lambda>kd. p_month (snd kd) = m) (m_productivityData st)) > 0,
      st\<lparr>m_productivityData := filter (\<lambda>kd. p_month (snd kd) \<noteq> m) (m_productivityData st)\<rparr>)"

datatype storage_op =
    OpArchive int
  | OpBulkCreate "InsertProductivityData list"
  | OpCreate InsertProductivityData
  | OpDeleteMonth string

fun db_step :: "DatabaseStorage \<Rightarrow> storage_op \<Rightarrow> DatabaseStorage" where
  "db_step db (OpArchive i) = snd (db_archiveContractor db i)"
| "db_step db (OpBulkCreate data) = snd (db_bulkCreateProductivityData db data)"
| "db_step db (OpCreate item) =
     (case db_createProductivityData db item of Inl e \<Rightarrow> db | Inr res \<Rightarrow> snd res)"
| "db_step db (OpDeleteMonth m) = snd (db_deleteProductivityByMonth db m)"

definition db_run :: "DatabaseStorage \<Rightarrow> storage_op list \<Rightarrow> DatabaseStorage" where
  "db_run db ops = foldl db_step db ops"

fun mem_step :: "MemStorage \<Rightarrow> storage_op \<Rightarrow> MemStorage" where
  "mem_step st (OpArchive i) = snd (mem_archiveContractor st i)"
| "mem_step st (OpBulkCreate data) = snd (mem_bulkCreateProductivityData st data)"
| "mem_step st (OpCreate item) = snd (mem_createProductivityData st item)"
| "mem_step st (OpDeleteMonth m) = snd (mem_deleteProductivityByMonth st m)"

definition mem_run :: "MemStorage \<Rightarrow> storage_op list \<Rightarrow> MemStorage" where
  "mem_run st ops = foldl mem_step st ops"


definition db_statusOf :: "DatabaseStorage \<Rightarrow> int \<Rightarrow> status option" where
  "db_statusOf db i = map_option c_status (db_getContractor db i)"

definition mem_statusOf :: "MemStorage \<Rightarrow> int \<Rightarrow> status option" where
  "mem_statusOf st i = map_option c_status (mem_getContractor st i)"


section \<open>Example data\<close>

definition exContractor :: "int \<Rightarrow> string \<Rightarrow> string \<Rightarrow> Contractor" where
  "exContractor i n t =
     \<lparr>c_id = i, c_name = n, c_personalEmail = [], c_workEmail = [], c_workLocation = [],
      c_position = [], c_startDate = [], c_separationDate = [], c_birthday = [],
      c_status = active, c_contractorType = t\<rparr>"

definition exRecord :: "nat \<Rightarrow> int \<Rightarrow> rat \<Rightarrow> rat \<Rightarrow> ProductivityData" where
  "exRecord u i h p =
     \<lparr>p_id = u, p_contractorId = i, p_month = ''Aug-25'', p_productiveHours = h,
      p_totalHours = 160, p_productivity = p, p_createdAt = 0\<rparr>"

definition exItem :: "int \<Rightarrow> rat \<Rightarrow> rat \<Rightarrow> InsertProductivityData" where
  "exItem i h p =
     \<lparr>i_contractorId = i, i_month = ''Aug-25'', i_productiveHours = h,
      i_totalHours = 160, i_productivity = p\<rparr>"

text \<open>Two full-time contractors with the same 80 productive hours in August; the one
  stored first has the lower productivity.\<close>

definition tieContractors :: "Contractor list" where
  "tieContractors = [exContractor 1 ''Ann'' ''Full Time'', exContractor 2 ''Bob'' ''Full Time'']"

definition tieRecords :: "ProductivityData list" where
  "tieRecords = [exRecord 0 1 80 90, exRecord 1 2 80 95]"

definition dbTie :: DatabaseStorage where
  "dbTie = \<lparr>contractors = tieContractors, productivityData = tieRecords, clock = 1, nextUuid = 2\<rparr>"

definition memTie :: MemStorage where
  "memTie =
     \<lparr>m_contractors = map (\<lambda>c. (c_id c, c)) tieContractors,
      m_productivityData = map (\<lambda>d. ((p_contractorId d, p_month d), d)) tieRecords,
      m_clock = 1, m_nextUuid = 2\<rparr>"

text \<open>A store with a productivity record of August whose contractor is not in the roster.\<close>

definition dbOrphan :: DatabaseStorage where
  "dbOrphan = \<lparr>contractors = [], productivityData = [exRecord 0 7 120 90], clock = 1, nextUuid = 1\<rparr>"

definition memOrphan :: MemStorage where
  "memOrphan =
     \<lparr>m_contractors = [],
      m_productivityData = [((7, ''Aug-25''), exRecord 0 7 120 90)],
      m_clock = 1, m_nextUuid = 1\<rparr>"

text \<open>A schema check for the examples: it lets through the rows whose three numbers are
  finite.\<close>

definition exSchema :: schema where
  "exSchema d =
     (case (d_productiveHours d, d_totalHours d, d_productivity d) of
        (Num h, Num t, Num p) \<Rightarrow>
          Inr \<lparr>i_contractorId = d_contractorId d, i_month = d_month d,
               i_productiveHours = h, i_totalHours = t, i_productivity = p\<rparr>
      | _ \<Rightarrow> Inl ''Expected number, received nan'')"





text \<open>Roster files: the header in lower case, and the header followed by a tenth column.\<close>

definition rosterLowerCase :: string where
  "rosterLowerCase =
     ''name,id,personal email,work email,work location,position,start date,separation date,birthday''
       @ [newline] @ ''Ann,1,,,,,,,''"

definition rosterExtraColumn :: string where
  "rosterExtraColumn =
     ''Name,ID,Personal Email,Work Email,Work Location,Position,Start Date,Separation Date,Birthday,Notes''
       @ [newline] @ ''Ann,1,,,,,,,,''"



section \<open>Notions of the specification\<close>

text \<open>The shape "DD-Mon" as the specification words it: exactly two digits, a dash, then
  three letters.\<close>

definition spec_DDMonShape :: "string \<Rightarrow> bool" where
  "spec_DDMonShape s =
     (length s = 6 \<and> isDigit (s ! 0) \<and> isDigit (s ! 1) \<and> s ! 2 = CHR ''-'' \<and>
      isLetter (s ! 3) \<and> isLetter (s ! 4) \<and> isLetter (s ! 5))"

text \<open>A field in "H:M:S" form: three numerals separated by colons.\<close>

definition isNumeral :: "string \<Rightarrow> bool" where
  "isNumeral ds = (ds \<noteq> [] \<and> list_all isDigit ds)"







section \<open>Upsert: one record per contractor and month\<close>









































section \<open>Archiving a contractor\<close>

lemma find_map_id:
  assumes "\<And>c. c_id (f c) = c_id c"
  shows "find (\<lambda>c. c_id c = j) (map f cs) = map_option f (find (\<lambda>c. c_id c = j) cs)"
  using assms by (induction cs) simp_all

lemma db_archive_productivity:
  "productivityData (snd (db_archiveContractor db i)) = productivityData db"
  by (simp add: db_archiveContractor_def)

lemma db_archive_lookup:
  "db_getContractor (snd (db_archiveContractor db j)) i =
     map_option (\<lambda>c. if c_id c = j then c\<lparr>c_status := archived\<rparr> else c) (db_getContractor db i)"
  unfolding db_getContractor_def db_archiveContractor_def
  by (simp add: find_map_id)

lemma db_archive_other:
  "i \<noteq> j \<Longrightarrow> db_getContractor (snd (db_archiveContractor db j)) i = db_getContractor db i"
proof (cases "db_getContractor db i")
  case None
  then show ?thesis by (simp add: db_archive_lookup)
next
  case (Some c)
  then have "c_id c = i" by (auto simp: db_getContractor_def find_Some_iff)
  with Some show "i \<noteq> j \<Longrightarrow> ?thesis" by (simp add: db_archive_lookup)
qed

lemma db_archive_found:
  assumes "db_getContractor db i = Some c"
  shows "fst (db_archiveContractor db i) = True"
    and "db_getContractor (snd (db_archiveContractor db i)) i = Some (c\<lparr>c_status := archived\<rparr>)"
proof -
  from assms have "c \<in> set (contractors db)" "c_id c = i"
    by (auto simp: db_getContractor_def find_Some_iff)
  then have "filter (\<lambda>c. c_id c = i) (contractors db) \<noteq> []"
    by (auto simp: filter_empty_conv)
  then show "fst (db_archiveContractor db i) = True"
    by (simp add: db_archiveContractor_def)
  from assms \<open>c_id c = i\<close> show "db_getContractor (snd (db_archiveContractor db i)) i = Some (c\<lparr>c_status := archived\<rparr>)"
    by (simp add: db_archive_lookup)
qed

lemma db_archive_missing:
  assumes "db_getContractor db i = None"
  shows "db_archiveContractor db i = (False, db)"
proof -
  from assms have no: "\<forall>c \<in> set (contractors db). c_id c \<noteq> i"
    by (auto simp: db_getContractor_def find_None_iff)
  then have "filter (\<lambda>c. c_id c = i) (contractors db) = []"
    by (auto simp: filter_empty_conv)
  moreover from no have "map (\<lambda>c. if c_id c = i then c\<lparr>c_status := archived\<rparr> else c) (contractors db) = contractors db"
    by (simp add: map_idI)
  ultimately show ?thesis by (simp add: db_archiveContractor_def)
qed

lemma db_archive_status_kept:
  "db_statusOf db i = Some archived \<Longrightarrow> db_statusOf (snd (db_archiveContractor db j)) i = Some archived"
  by (cases "db_getContractor db i") (simp_all add: db_statusOf_def db_archive_lookup)

lemma db_bulkLoop_contractors: "contractors (snd (db_bulkLoop results db data)) = contractors db"
proof (induction data arbitrary: results db)
  case Nil
  then show ?case by simp
next
  case (Cons item rest)
  have "contractors (snd (db_upsert db item)) = contractors db"
    by (simp add: db_upsert_def split: option.split)
  with Cons.IH show ?case by (simp split: prod.split) (metis snd_conv)
qed

lemma db_step_contractors_status:
  "db_statusOf db i = Some archived \<Longrightarrow> db_statusOf (db_step db op) i = Some archived"
proof (cases op)
  case (OpArchive j)
  then show "db_statusOf db i = Some archived \<Longrightarrow> ?thesis" by (simp add: db_archive_status_kept)
next
  case (OpBulkCreate data)
  then show "db_statusOf db i = Some archived \<Longrightarrow> ?thesis"
    by (simp add: db_statusOf_def db_getContractor_def db_bulkCreateProductivityData_def db_bulkLoop_contractors)
next
  case (OpCreate item)
  then show "db_statusOf db i = Some archived \<Longrightarrow> ?thesis"
    by (auto simp: db_statusOf_def db_getContractor_def db_createProductivityData_def split: option.split sum.split)
next
  case (OpDeleteMonth m)
  then show "db_statusOf db i = Some archived \<Longrightarrow> ?thesis"
    by (simp add: db_statusOf_def db_getContractor_def db_deleteProductivityByMonth_def)
qed

lemma db_run_status:
  "db_statusOf db i = Some archived \<Longrightarrow> db_statusOf (db_run db ops) i = Some archived"
  unfolding db_run_def by (induction ops arbitrary: db) (simp_all add: db_step_contractors_status)

lemma mem_archive_productivity:
  "m_productivityData (snd (mem_archiveContractor st i)) = m_productivityData st"
  by (simp add: mem_archiveContractor_def split: option.split)

lemma mem_archive_lookup:
  "mem_getContractor (snd (mem_archiveContractor st j)) i =
     (if i = j then map_option (\<lambda>c. c\<lparr>c_status := archived\<rparr>) (mem_getContractor st j)
      else mem_getContractor st i)"
  by (simp add: mem_getContractor_def mem_archiveContractor_def update_conv' split: option.split)

lemma mem_archive_missing:
  "mem_getContractor st i = None \<Longrightarrow> mem_archiveContractor st i = (False, st)"
  by (simp add: mem_getContractor_def mem_archiveContractor_def)

lemma mem_archive_found:
  "mem_getContractor st i = Some c \<Longrightarrow> fst (mem_archiveContractor st i) = True"
  by (simp add: mem_getContractor_def mem_archiveContractor_def)

lemma mem_archive_others:
  "filter (\<lambda>kc. fst kc \<noteq> i) (m_contractors (snd (mem_archiveContractor st i)))
     = filter (\<lambda>kc. fst kc \<noteq> i) (m_contractors st)"
proof -
  have "filter (\<lambda>kc. fst kc \<noteq> i) (AList.update i v al) = filter (\<lambda>kc. fst kc \<noteq> i) al" for v and al :: "(int \<times> Contractor) list"
    by (induction al) auto
  then show ?thesis by (simp add: mem_archiveContractor_def split: option.split)
qed

lemma mem_bulkLoop_contractors: "m_contractors (snd (mem_bulkLoop results st data)) = m_contractors st"
proof (induction data arbitrary: results st)
  case Nil
  then show ?case by simp
next
  case (Cons item rest)
  have "m_contractors (snd (mem_upsert st item)) = m_contractors st"
    by (simp add: mem_upsert_def mem_createProductivityData_def split: option.split)
  with Cons.IH show ?case by (simp split: prod.split) (metis snd_conv)
qed

lemma mem_step_status:
  "mem_statusOf st i = Some archived \<Longrightarrow> mem_statusOf (mem_step st op) i = Some archived"
proof (cases op)
  case (OpArchive j)
  then show "mem_statusOf st i = Some archived \<Longrightarrow> ?thesis"
    by (auto simp: mem_statusOf_def mem_archive_lookup)
next
  case (OpBulkCreate data)
  then show "mem_statusOf st i = Some archived \<Longrightarrow> ?thesis"
    by (simp add: mem_statusOf_def mem_getContractor_def mem_bulkCreateProductivityData_def mem_bulkLoop_contractors)
next
  case (OpCreate item)
  then show "mem_statusOf st i = Some archived \<Longrightarrow> ?thesis"
    by (simp add: mem_statusOf_def mem_getContractor_def mem_createProductivityData_def)
next
  case (OpDeleteMonth m)
  then show "mem_statusOf st i = Some archived \<Longrightarrow> ?thesis"
    by (simp add: mem_statusOf_def mem_getContractor_def mem_deleteProductivityByMonth_def)
qed

lemma mem_run_status:
  "mem_statusOf st i = Some archived \<Longrightarrow> mem_statusOf (mem_run st ops) i = Some archived"
  unfolding mem_run_def by (induction ops arbitrary: st) (simp_all add: mem_step_status)

lemma db_archive_others:
  "filter (\<lambda>c. c_id c \<noteq> i) (contractors (snd (db_archiveContractor db i)))
     = filter (\<lambda>c. c_id c \<noteq> i) (contractors db)"
proof -
  have "filter (\<lambda>c. c_id c \<noteq> i) (map (\<lambda>c. if c_id c = i then c\<lparr>c_status := archived\<rparr> else c) cs)
          = filter (\<lambda>c. c_id c \<noteq> i) cs" for cs :: "Contractor list"
    by (induction cs) auto
  then show ?thesis by (simp add: db_archiveContractor_def)
qed

lemma exLookups:
  "db_getContractor dbTie 1 = Some (exContractor 1 ''Ann'' ''Full Time'')"
  "db_getContractor dbTie 3 = None"
  "mem_getContractor memTie 1 = Some (exContractor 1 ''Ann'' ''Full Time'')"
  "mem_getContractor memTie 3 = None"
  by (simp_all add: db_getContractor_def mem_getContractor_def dbTie_def memTie_def tieContractors_def exContractor_def)

text \<open>
  C9.  Archiving contractor \<open>i\<close> leaves every productivity record as it is and every
  other contractor as it is.  If the contractor exists the operation returns true, a
  fetch of the contractor gives the same contractor with status \<open>archived\<close>, and the
  status stays \<open>archived\<close> under every later sequence of archive operations and
  productivity writes and deletions (only an explicit creation or update of the
  contractor could change it).  If the contractor does not exist the operation returns
  false and the store is unchanged.  This holds for \<open>DatabaseStorage\<close> and for
  \<open>MemStorage\<close>.
\<close>

theorem archiveContractor_keeps_history:
  "productivityData (snd (db_archiveContractor db i)) = productivityData db
   \<and> filter (\<lambda>c. c_id c \<noteq> i) (contractors (snd (db_archiveContractor db i)))
        = filter (\<lambda>c. c_id c \<noteq> i) (contractors db)
   \<and> (\<forall>j. j \<noteq> i \<longrightarrow> db_getContractor (snd (db_archiveContractor db i)) j = db_getContractor db j)
   \<and> (\<forall>c. db_getContractor db i = Some c \<longrightarrow>
          fst (db_archiveContractor db i)
          \<and> db_getContractor (snd (db_archiveContractor db i)) i = Some (c\<lparr>c_status := archived\<rparr>)
          \<and> (\<forall>ops. db_statusOf (db_run (snd (db_archiveContractor db i)) ops) i = Some archived))
   \<and> (db_getContractor db i = None \<longrightarrow> db_archiveContractor db i = (False, db))
   \<and> m_productivityData (snd (mem_archiveContractor st i)) = m_productivityData st
   \<and> filter (\<lambda>kc. fst kc \<noteq> i) (m_contractors (snd (mem_archiveContractor st i)))
        = filter (\<lambda>kc. fst kc \<noteq> i) (m_contractors st)
   \<and> (\<forall>j. j \<noteq> i \<longrightarrow> mem_getContractor (snd (mem_archiveContractor st i)) j = mem_getContractor st j)
   \<and> (\<forall>c. mem_getContractor st i = Some c \<longrightarrow>
          fst (mem_archiveContractor st i)
          \<and> mem_getContractor (snd (mem_archiveContractor st i)) i = Some (c\<lparr>c_status := archived\<rparr>)
          \<and> (\<forall>ops. mem_statusOf (mem_run (snd (mem_archiveContractor st i)) ops) i = Some archived))
   \<and> (mem_getContractor st i = None \<longrightarrow> mem_archiveContractor st i = (False, st))"
proof (intro conjI allI impI)
  show "productivityData (snd (db_archiveContractor db i)) = productivityData db"
    by (rule db_archive_productivity)
  show "filter (\<lambda>c. c_id c \<noteq> i) (contractors (snd (db_archiveContractor db i)))
        = filter (\<lambda>c. c_id c \<noteq> i) (contractors db)"
    by (rule db_archive_others)
  show "db_getContractor (snd (db_archiveContractor db i)) j = db_getContractor db j" if "j \<noteq> i" for j
    using that by (rule db_archive_other)
  show "db_archiveContractor db i = (False, db)" if "db_getContractor db i = None"
    using that by (rule db_archive_missing)
  show "m_productivityData (snd (mem_archiveContractor st i)) = m_productivityData st"
    by (rule mem_archive_productivity)
  show "filter (\<lambda>kc. fst kc \<noteq> i) (m_contractors (snd (mem_archiveContractor st i)))
        = filter (\<lambda>kc. fst kc \<noteq> i) (m_contractors st)"
    by (rule mem_archive_others)
  show "mem_getContractor (snd (mem_archiveContractor st i)) j = mem_getContractor st j" if "j \<noteq> i" for j
    using that by (simp add: mem_archive_lookup)
  show "mem_archiveContractor st i = (False, st)" if "mem_getContractor st i = None"
    using that by (rule mem_archive_missing)
next
  fix c assume c: "db_getContractor db i = Some c"
  show "fst (db_archiveContractor db i)"
    using db_archive_found(1)[OF c] by simp
  show a: "db_getContractor (snd (db_archiveContractor db i)) i = Some (c\<lparr>c_status := archived\<rparr>)"
    by (rule db_archive_found(2)[OF c])
  show "db_statusOf (db_run (snd (db_archiveContractor db i)) ops) i = Some archived" for ops
    by (rule db_run_status) (simp add: db_statusOf_def a)
next
  fix c assume c: "mem_getContractor st i = Some c"
  show "fst (mem_archiveContractor st i)"
    using mem_archive_found[OF c] by simp
  show a: "mem_getContractor (snd (mem_archiveContractor st i)) i = Some (c\<lparr>c_status := archived\<rparr>)"
    using c by (simp add: mem_archive_lookup)
  show "mem_statusOf (mem_run (snd (mem_archiveContractor st i)) ops) i = Some archived" for ops
    by (rule mem_run_status) (simp add: mem_statusOf_def a)
qed

theorem archiveContractor_keeps_history_witness:
  "(2::int) \<noteq> 1
   \<and> db_getContractor dbTie 1 = Some (exContractor 1 ''Ann'' ''Full Time'')
   \<and> db_getContractor dbTie 3 = None
   \<and> mem_getContractor memTie 1 = Some (exContractor 1 ''Ann'' ''Full Time'')
   \<and> mem_getContractor memTie 3 = None
   \<and> db_getContractor (snd (db_archiveContractor dbTie 1)) 2 = db_getContractor dbTie 2
   \<and> db_getContractor (snd (db_archiveContractor dbTie 1)) 1
        = Some ((exContractor 1 ''Ann'' ''Full Time'')\<lparr>c_status := archived\<rparr>)
   \<and> db_statusOf (db_run (snd (db_archiveContractor dbTie 1))
         [OpBulkCreate [exItem 1 10 50], OpDeleteMonth ''Aug-25'', OpArchive 2]) 1 = Some archived
   \<and> db_archiveContractor dbTie 3 = (False, dbTie)
   \<and> mem_getContractor (snd (mem_archiveContractor memTie 1)) 2 = mem_getContractor memTie 2
   \<and> mem_getContractor (snd (mem_archiveContractor memTie 1)) 1
        = Some ((exContractor 1 ''Ann'' ''Full Time'')\<lparr>c_status := archived\<rparr>)
   \<and> mem_statusOf (mem_run (snd (mem_archiveContractor memTie 1))
         [OpBulkCreate [exItem 1 10 50], OpDeleteMonth ''Aug-25'', OpArchive 2]) 1 = Some archived
   \<and> mem_archiveContractor memTie 3 = (False, memTie)"
  using archiveContractor_keeps_history[of dbTie 1 memTie]
        archiveContractor_keeps_history[of dbTie 3 memTie] exLookups
  by simp


section \<open>Rankings and under-performers\<close>

lemma innerJoin_set:
  "(p, c) \<in> set (innerJoin ps cs) \<longleftrightarrow> p \<in> set ps \<and> c \<in> set cs \<and> c_id c = p_contractorId p"
  by (auto simp: innerJoin_def)

lemma filter_primary_key:
  "distinct (map c_id cs) \<Longrightarrow>
     length (filter (\<lambda>c. c_id c = k) cs) = (if k \<in> c_id ` set cs then 1 else 0)"
proof (induction cs)
  case Nil
  then show ?case by simp
next
  case (Cons c cs)
  then show ?case by (auto simp: filter_empty_conv)
qed

lemma innerJoin_fst:
  assumes "distinct (map c_id cs)"
  shows "map fst (innerJoin ps cs) = filter (\<lambda>p. p_contractorId p \<in> c_id ` set cs) ps"
proof (induction ps)
  case Nil
  then show ?case by (simp add: innerJoin_def)
next
  case (Cons p ps)
  have "map fst (map (\<lambda>c. (p, c)) (filter (\<lambda>c. c_id c = p_contractorId p) cs))
          = replicate (length (filter (\<lambda>c. c_id c = p_contractorId p) cs)) p"
    by (simp add: comp_def map_replicate_const)
  also have "\<dots> = (if p_contractorId p \<in> c_id ` set cs then [p] else [])"
    by (simp add: filter_primary_key[OF assms])
  finally show ?case using Cons.IH by (simp add: innerJoin_def)
qed

lemma ranks_enumerate:
  "map r_rank (map toRanking (enumerate 0 rows)) = [1..<Suc (length rows)]"
proof -
  have "map r_rank (map toRanking (enumerate 0 rows)) = map (\<lambda>x. Suc (fst x)) (enumerate 0 rows)"
    by (simp add: toRanking_def comp_def)
  also have "\<dots> = map Suc (map fst (enumerate 0 rows))"
    by (simp only: map_map comp_def)
  also have "\<dots> = [1..<Suc (length rows)]"
    by (simp add: map_Suc_upt)
  finally show ?thesis .
qed

lemma desc_key_le:
  "descHoursDescProductivity x \<le> descHoursDescProductivity y \<longleftrightarrow>
     p_productiveHours (fst x) > p_productiveHours (fst y) \<or>
     (p_productiveHours (fst x) = p_productiveHours (fst y) \<and> p_productivity (fst x) \<ge> p_productivity (fst y))"
  by (auto simp: descHoursDescProductivity_def)

lemma asc_key_le:
  "ascHoursDescProductivity x \<le> ascHoursDescProductivity y \<longleftrightarrow>
     p_productiveHours (fst x) < p_productiveHours (fst y) \<or>
     (p_productiveHours (fst x) = p_productiveHours (fst y) \<and> p_productivity (fst x) \<ge> p_productivity (fst y))"
  by (auto simp: ascHoursDescProductivity_def)

lemma sorted_key_nth:
  "sorted (map f xs) \<Longrightarrow> i < j \<Longrightarrow> j < length xs \<Longrightarrow> f (xs ! i) \<le> f (xs ! j)"
  using sorted_nth_mono[of "map f xs" i j] by simp

text \<open>The database ranking, in general.\<close>

lemma db_getMonthlyRankings_spec:
  assumes pk: "primaryKeyOk db"
  shows "mset (map fst (db_rankingRows db m))
           = mset (filter (\<lambda>p. p_month p = m \<and> p_contractorId p \<in> c_id ` set (contractors db))
                     (productivityData db))"
    and "\<forall>row \<in> set (db_rankingRows db m). snd row \<in> set (contractors db) \<and> c_id (snd row) = p_contractorId (fst row)"
    and "\<forall>i j. i < j \<and> j < length (db_rankingRows db m) \<longrightarrow>
           p_productiveHours (fst (db_rankingRows db m ! i)) > p_productiveHours (fst (db_rankingRows db m ! j)) \<or>
           (p_productiveHours (fst (db_rankingRows db m ! i)) = p_productiveHours (fst (db_rankingRows db m ! j)) \<and>
            p_productivity (fst (db_rankingRows db m ! i)) \<ge> p_productivity (fst (db_rankingRows db m ! j)))"
    and "length (db_getMonthlyRankings db m) = length (db_rankingRows db m)"
    and "\<forall>k < length (db_rankingRows db m).
           db_getMonthlyRankings db m ! k = toRanking (k, db_rankingRows db m ! k)"
    and "map r_rank (db_getMonthlyRankings db m) = [1..<Suc (length (db_rankingRows db m))]"
    and "distinct (map r_rank (db_getMonthlyRankings db m))"
proof -
  let ?J = "innerJoin (productivityData db) (contractors db)"
  have "mset (map fst (db_rankingRows db m)) = mset (map fst (filter (\<lambda>row. p_month (fst row) = m) ?J))"
    by (simp add: db_rankingRows_def)
  also have "map fst (filter (\<lambda>row. p_month (fst row) = m) ?J) = filter (\<lambda>p. p_month p = m) (map fst ?J)"
    by (simp add: filter_map comp_def)
  also have "\<dots> = filter (\<lambda>p. p_month p = m \<and> p_contractorId p \<in> c_id ` set (contractors db)) (productivityData db)"
    using pk by (simp add: primaryKeyOk_def innerJoin_fst conj_commute)
  finally show "mset (map fst (db_rankingRows db m))
           = mset (filter (\<lambda>p. p_month p = m \<and> p_contractorId p \<in> c_id ` set (contractors db))
                     (productivityData db))" .
  show "\<forall>row \<in> set (db_rankingRows db m). snd row \<in> set (contractors db) \<and> c_id (snd row) = p_contractorId (fst row)"
    using innerJoin_set by (auto simp: db_rankingRows_def)
  have s: "sorted (map descHoursDescProductivity (db_rankingRows db m))"
    by (simp add: db_rankingRows_def)
  show "\<forall>i j. i < j \<and> j < length (db_rankingRows db m) \<longrightarrow>
           p_productiveHours (fst (db_rankingRows db m ! i)) > p_productiveHours (fst (db_rankingRows db m ! j)) \<or>
           (p_productiveHours (fst (db_rankingRows db m ! i)) = p_productiveHours (fst (db_rankingRows db m ! j)) \<and>
            p_productivity (fst (db_rankingRows db m ! i)) \<ge> p_productivity (fst (db_rankingRows db m ! j)))"
    using sorted_key_nth[OF s] by (simp add: desc_key_le)
  show "length (db_getMonthlyRankings db m) = length (db_rankingRows db m)"
    by (simp add: db_getMonthlyRankings_def)
  show "\<forall>k < length (db_rankingRows db m).
           db_getMonthlyRankings db m ! k = toRanking (k, db_rankingRows db m ! k)"
    by (simp add: db_getMonthlyRankings_def nth_enumerate_eq)
  show r: "map r_rank (db_getMonthlyRankings db m) = [1..<Suc (length (db_rankingRows db m))]"
    unfolding db_getMonthlyRankings_def by (rule ranks_enumerate)
  show "distinct (map r_rank (db_getMonthlyRankings db m))"
    unfolding r by simp
qed

lemma db_getUnderPerformers_spec:
  shows "set (db_underPerformerRows db m)
           = {row \<in> set (innerJoin (productivityData db) (contractors db)). underPerforming m row}"
    and "mset (db_underPerformerRows db m)
           = mset (filter (underPerforming m) (innerJoin (productivityData db) (contractors db)))"
    and "\<forall>row \<in> set (db_underPerformerRows db m).
           p_month (fst row) = m \<and> 0 < p_productiveHours (fst row) \<and> p_productiveHours (fst row) \<noteq> 0 \<and>
           ((c_contractorType (snd row) = ''Full Time'' \<and> p_productiveHours (fst row) < 100) \<or>
            (c_contractorType (snd row) = ''Part Time'' \<and> p_productiveHours (fst row) < 50))"
    and "\<forall>i j. i < j \<and> j < length (db_underPerformerRows db m) \<longrightarrow>
           p_productiveHours (fst (db_underPerformerRows db m ! i)) < p_productiveHours (fst (db_underPerformerRows db m ! j)) \<or>
           (p_productiveHours (fst (db_underPerformerRows db m ! i)) = p_productiveHours (fst (db_underPerformerRows db m ! j)) \<and>
            p_productivity (fst (db_underPerformerRows db m ! i)) \<ge> p_productivity (fst (db_underPerformerRows db m ! j)))"
    and "\<forall>k < length (db_underPerformerRows db m).
           db_getUnderPerformers db m threshold ! k = toRanking (k, db_underPerformerRows db m ! k)"
    and "map r_rank (db_getUnderPerformers db m threshold) = [1..<Suc (length (db_underPerformerRows db m))]"
proof -
  show "set (db_underPerformerRows db m)
           = {row \<in> set (innerJoin (productivityData db) (contractors db)). underPerforming m row}"
    by (auto simp: db_underPerformerRows_def)
  show "mset (db_underPerformerRows db m)
           = mset (filter (underPerforming m) (innerJoin (productivityData db) (contractors db)))"
    by (simp add: db_underPerformerRows_def)
  show "\<forall>row \<in> set (db_underPerformerRows db m).
           p_month (fst row) = m \<and> 0 < p_productiveHours (fst row) \<and> p_productiveHours (fst row) \<noteq> 0 \<and>
           ((c_contractorType (snd row) = ''Full Time'' \<and> p_productiveHours (fst row) < 100) \<or>
            (c_contractorType (snd row) = ''Part Time'' \<and> p_productiveHours (fst row) < 50))"
    by (auto simp: db_underPerformerRows_def underPerforming_def)
  have s: "sorted (map ascHoursDescProductivity (db_underPerformerRows db m))"
    by (simp add: db_underPerformerRows_def)
  show "\<forall>i j. i < j \<and> j < length (db_underPerformerRows db m) \<longrightarrow>
           p_productiveHours (fst (db_underPerformerRows db m ! i)) < p_productiveHours (fst (db_underPerformerRows db m ! j)) \<or>
           (p_productiveHours (fst (db_underPerformerRows db m ! i)) = p_productiveHours (fst (db_underPerformerRows db m ! j)) \<and>
            p_productivity (fst (db_underPerformerRows db m ! i)) \<ge> p_productivity (fst (db_underPerformerRows db m ! j)))"
    using sorted_key_nth[OF s] by (simp add: asc_key_le)
  show "\<forall>k < length (db_underPerformerRows db m).
           db_getUnderPerformers db m threshold ! k = toRanking (k, db_underPerformerRows db m ! k)"
    by (simp add: db_getUnderPerformers_def nth_enumerate_eq)
  show "map r_rank (db_getUnderPerformers db m threshold) = [1..<Suc (length (db_underPerformerRows db m))]"
    unfolding db_getUnderPerformers_def by (rule ranks_enumerate)
qed

lemmas ex_defs = dbTie_def memTie_def tieContractors_def tieRecords_def exContractor_def exRecord_def

lemma db_getMonthlyRankings_orphan:
  "db_getProductivityDataByMonth dbOrphan ''Aug-25'' = [exRecord 0 7 120 90]
   \<and> db_getMonthlyRankings dbOrphan ''Aug-25'' = []
   \<and> map r_name (mem_getMonthlyRankings memOrphan ''Aug-25'') = [''Unknown'']"
  by (simp add: db_getProductivityDataByMonth_def db_getMonthlyRankings_def db_rankingRows_def
        innerJoin_def dbOrphan_def memOrphan_def exRecord_def
        mem_getMonthlyRankings_def mem_getProductivityDataByMonth_def mem_getAllContractors_def
        mem_entry_def setRank_def enumerate_eq_zip nameOrUnknown_def)

text \<open>
  C1.  Two records of August with the same 80 productive hours, the first stored with
  productivity 90 (contractor 1), the second with 95 (contractor 2).  \<open>MemStorage\<close>
  ranks contractor 1 first: its comparator looks at the hours only and the stable sort
  keeps the order of storage.  \<open>DatabaseStorage\<close> ranks contractor 2 first, the higher
  productivity, as the ranking rule says.  Both give the ranks 1 and 2.
\<close>

theorem getMonthlyRankings_tie_order:
  "map p_productiveHours tieRecords = [80, 80]
   \<and> map p_productivity tieRecords = [90, 95]
   \<and> map r_contractorId (mem_getMonthlyRankings memTie ''Aug-25'') = [1, 2]
   \<and> map r_rank (mem_getMonthlyRankings memTie ''Aug-25'') = [1, 2]
   \<and> map r_contractorId (db_getMonthlyRankings dbTie ''Aug-25'') = [2, 1]
   \<and> map r_rank (db_getMonthlyRankings dbTie ''Aug-25'') = [1, 2]"
  by (simp add: mem_getMonthlyRankings_def mem_getProductivityDataByMonth_def mem_getAllContractors_def
        mem_entry_def setRank_def enumerate_eq_zip nameOrUnknown_def
        db_getMonthlyRankings_def db_rankingRows_def innerJoin_def toRanking_def descHoursDescProductivity_def
        ex_defs)

text \<open>
  C2.  The same two records are both under the full-time threshold of 100 hours.
  \<open>MemStorage\<close> lists contractor 1 first, in the order of storage; \<open>DatabaseStorage\<close>
  lists contractor 2 first, the higher productivity, as the rule for ties says.
\<close>

theorem getUnderPerformers_tie_order:
  "map p_productiveHours tieRecords = [80, 80]
   \<and> map p_productivity tieRecords = [90, 95]
   \<and> map r_contractorId (mem_getUnderPerformers memTie ''Aug-25'' 0) = [1, 2]
   \<and> map r_rank (mem_getUnderPerformers memTie ''Aug-25'' 0) = [1, 2]
   \<and> map r_contractorId (db_getUnderPerformers dbTie ''Aug-25'' 0) = [2, 1]
   \<and> map r_rank (db_getUnderPerformers dbTie ''Aug-25'' 0) = [1, 2]"
  by (simp add: mem_getUnderPerformers_def mem_getProductivityDataByMonth_def mem_getAllContractors_def
        mem_entry_def setRank_def enumerate_eq_zip nameOrUnknown_def mem_underPerforming_def
        db_getUnderPerformers_def db_underPerformerRows_def innerJoin_def toRanking_def
        ascHoursDescProductivity_def underPerforming_def
        ex_defs)


section \<open>Escaping of exported fields\<close>

lemma trim_Cons_nonspace:
  assumes "\<not> isSpace c"
  shows "trim (c # s) = c # rev (dropWhile isSpace (rev s))"
proof -
  have "dropWhile isSpace (rev s @ [c]) = dropWhile isSpace (rev s) @ [c]"
    using assms by (induction "rev s" arbitrary: s) (simp_all add: dropWhile_append)
  with assms show ?thesis by (simp add: trim_def)
qed

lemma trim_dropWhile: "trim s = trim (dropWhile isSpace s)"
  by (simp add: trim_def)

lemma trim_first:
  "trim s = (case dropWhile isSpace s of [] \<Rightarrow> [] | c # t \<Rightarrow> c # rev (dropWhile isSpace (rev t)))"
proof (cases "dropWhile isSpace s")
  case Nil
  show ?thesis unfolding trim_def Nil by simp
next
  case (Cons c t)
  then have "\<not> isSpace c" by (metis hd_dropWhile list.sel(1) list.distinct(1))
  from trim_Cons_nonspace[OF this, of t] Cons show ?thesis
    by (subst trim_dropWhile) simp
qed

lemma isSpace_tab: "isSpace tab"
  by (simp add: isSpace_def tab_def)

lemma startsWithFormulaChar_trim:
  "startsWithFormulaChar (trim s) =
     (case dropWhile isSpace s of [] \<Rightarrow> False | c # t \<Rightarrow> c \<in> set ''=+-@'')"
proof (cases "dropWhile isSpace s")
  case Nil
  show ?thesis unfolding trim_first Nil by (simp add: startsWithFormulaChar_def)
next
  case (Cons c t)
  then have "\<not> isSpace c" by (metis hd_dropWhile list.sel(1) list.distinct(1))
  then have "c \<noteq> tab" using isSpace_tab by auto
  then show ?thesis unfolding trim_first Cons by (auto simp: startsWithFormulaChar_def)
qed

lemma neutralize_formula_char:
  "c \<in> set ''=+-@'' \<Longrightarrow> neutralize (c # s) = squote # c # s"
  unfolding neutralize_def startsWithFormulaChar_trim
  by (auto simp: isSpace_def)

lemma neutralize_leading_tab:
  "neutralize (tab # s) = (if startsWithFormulaChar (trim s) then squote # tab # s else tab # s)"
  unfolding neutralize_def startsWithFormulaChar_trim
  by (simp add: isSpace_tab)

lemma needsQuoting_neutralize: "needsQuoting s \<Longrightarrow> needsQuoting (neutralize s)"
  by (auto simp: needsQuoting_def neutralize_def)

lemma escapeCsvField_quotes:
  "needsQuoting s \<Longrightarrow>
     escapeCsvField (CsvString s) = [dquote] @ doubleQuotes (neutralize s) @ [dquote]"
  by (simp add: escapeCsvField_def quoteIfNeeded_def needsQuoting_neutralize)

lemma escapeCsvField_formula_char:
  "c \<in> set ''=+-@'' \<Longrightarrow>
     escapeCsvField (CsvString (c # s)) = quoteIfNeeded (squote # c # s)"
  by (simp only: escapeCsvField_def csv_value.case neutralize_formula_char)

lemma generateCsv_BOM: "take 3 (generateCsv data) = BOM \<and> take 3 (createCsvContent headers rows) = BOM"
  by (simp add: generateCsv_def createCsvContent_def BOM_def)

text \<open>
  C10.  A field that starts with a tab is returned as it is, without the leading single
  quote: the test for a formula character is made on the trimmed text, and trimming
  removes the tab (lemma \<open>neutralize_leading_tab\<close> gives the general statement).  The
  server's \<open>escapeCsvField\<close> and the client's \<open>escapeCsvValue\<close> agree.  A field that
  starts with \<open>=\<close> gets the quote.
\<close>

theorem escapeCsvField_leading_tab:
  "escapeCsvField (CsvString (tab # ''SUM(A1)'')) = tab # ''SUM(A1)''
   \<and> escapeCsvValue (CsvString (tab # ''SUM(A1)'')) = tab # ''SUM(A1)''
   \<and> escapeCsvField (CsvString ''=SUM(A1)'') = squote # ''=SUM(A1)''"
  by (simp add: escapeCsvField_def escapeCsvValue_def quoteIfNeeded_def neutralize_def needsQuoting_def
        startsWithFormulaChar_def trim_def isSpace_def tab_def dquote_def squote_def newline_def carriageReturn_def)


section \<open>The month column\<close>

lemma length6_cases:
  "length s = 6 \<Longrightarrow> \<exists>a b c d e f. s = [a, b, c, d, e, f]"
  by (cases s; simp; cases "tl s"; simp; cases "tl (tl s)"; simp;
      cases "tl (tl (tl s))"; simp; cases "tl (tl (tl (tl s)))"; simp;
      cases "tl (tl (tl (tl (tl s))))"; simp)

lemma digit_not_dash: "isDigit c \<Longrightarrow> c \<noteq> CHR ''-''"
  by (auto simp: isDigit_def)

lemma wordChar_not_dash: "isWordChar c \<Longrightarrow> c \<noteq> CHR ''-''"
  by (auto simp: isWordChar_def isDigit_def isLetter_def)

lemma fixMonth_swap:
  assumes "isDigit a" "isDigit b" "isWordChar d" "isWordChar e" "isWordChar f"
  shows "fixMonth [a, b, CHR ''-'', d, e, f] = [d, e, f, CHR ''-'', a, b]"
  using assms digit_not_dash[of a] digit_not_dash[of b]
    wordChar_not_dash[of d] wordChar_not_dash[of e] wordChar_not_dash[of f]
  by (simp add: fixMonth_def matchesDayMonth_def split_def)

lemma letter_wordChar: "isLetter c \<Longrightarrow> isWordChar c"
  by (simp add: isWordChar_def)

text \<open>
  C5, as amended.  A month field of two digits, a dash and three word characters
  (letters, digits or underscores) is rewritten with its two parts swapped; in
  particular a field of the shape "DD-Mon" becomes "Mon-DD".  Every other field is
  passed through unchanged.
\<close>

theorem fixMonth_rewrites:
  "(\<forall>a b d e f. isDigit a \<and> isDigit b \<and> isWordChar d \<and> isWordChar e \<and> isWordChar f \<longrightarrow>
        fixMonth [a, b, CHR ''-'', d, e, f] = [d, e, f, CHR ''-'', a, b])
   \<and> (spec_DDMonShape month \<longrightarrow> fixMonth month = drop 3 month @ ''-'' @ take 2 month)
   \<and> (\<not> (\<exists>a b d e f. month = [a, b, CHR ''-'', d, e, f] \<and>
             isDigit a \<and> isDigit b \<and> isWordChar d \<and> isWordChar e \<and> isWordChar f) \<longrightarrow>
        fixMonth month = month)"
proof (intro conjI allI impI)
  fix a b d e f
  assume "isDigit a \<and> isDigit b \<and> isWordChar d \<and> isWordChar e \<and> isWordChar f"
  then show "fixMonth [a, b, CHR ''-'', d, e, f] = [d, e, f, CHR ''-'', a, b]"
    by (simp add: fixMonth_swap)
next
  assume s: "spec_DDMonShape month"
  then obtain a b c d e f where m: "month = [a, b, c, d, e, f]"
    using length6_cases[of month] by (auto simp: spec_DDMonShape_def)
  with s have "isDigit a" "isDigit b" "c = CHR ''-''" "isWordChar d" "isWordChar e" "isWordChar f"
    by (simp_all add: spec_DDMonShape_def letter_wordChar)
  with m show "fixMonth month = drop 3 month @ ''-'' @ take 2 month"
    by (simp add: fixMonth_swap)
next
  assume n: "\<not> (\<exists>a b d e f. month = [a, b, CHR ''-'', d, e, f] \<and>
             isDigit a \<and> isDigit b \<and> isWordChar d \<and> isWordChar e \<and> isWordChar f)"
  have "\<not> matchesDayMonth month"
  proof
    assume mm: "matchesDayMonth month"
    then obtain a b c d e f where m: "month = [a, b, c, d, e, f]"
      using length6_cases[of month] by (auto simp: matchesDayMonth_def)
    with mm n show False by (simp add: matchesDayMonth_def)
  qed
  then show "fixMonth month = month" by (simp add: fixMonth_def)
qed

theorem fixMonth_rewrites_witness:
  "isDigit CHR ''2'' \<and> isDigit CHR ''5'' \<and> isWordChar CHR ''A'' \<and> isWordChar CHR ''u'' \<and> isWordChar CHR ''g''
   \<and> spec_DDMonShape ''25-Aug''
   \<and> fixMonth ''25-Aug'' = ''Aug-25''
   \<and> \<not> (\<exists>a b d e f. ''Aug-25'' = [a, b, CHR ''-'', d, e, f] \<and>
             isDigit a \<and> isDigit b \<and> isWordChar d \<and> isWordChar e \<and> isWordChar f)
   \<and> fixMonth ''Aug-25'' = ''Aug-25''"
proof -
  have h: "isDigit CHR ''2'' \<and> isDigit CHR ''5'' \<and> isWordChar CHR ''A'' \<and> isWordChar CHR ''u'' \<and> isWordChar CHR ''g''"
    by (simp add: isDigit_def isWordChar_def isLetter_def)
  have s: "spec_DDMonShape ''25-Aug''"
    by (simp add: spec_DDMonShape_def isDigit_def isLetter_def)
  have n: "\<not> (\<exists>a b d e f. ''Aug-25'' = [a, b, CHR ''-'', d, e, f] \<and>
             isDigit a \<and> isDigit b \<and> isWordChar d \<and> isWordChar e \<and> isWordChar f)"
    by simp
  from fixMonth_rewrites[of "''25-Aug''"] s have "fixMonth ''25-Aug'' = ''Aug-25''" by simp
  moreover from fixMonth_rewrites[of "''Aug-25''"] n have "fixMonth ''Aug-25'' = ''Aug-25''" by blast
  ultimately show ?thesis using h s n by blast
qed

text \<open>
  C5, as stated, fails: \<open>25-123\<close> is not two digits, a dash and three letters, yet it is
  not passed through unchanged.
\<close>

theorem fixMonth_counterexample:
  "\<not> spec_DDMonShape ''25-123'' \<and> fixMonth ''25-123'' = ''123-25'' \<and> fixMonth ''25-123'' \<noteq> ''25-123''"
  by (simp add: spec_DDMonShape_def fixMonth_def matchesDayMonth_def split_def isDigit_def isLetter_def isWordChar_def)


section \<open>The productive hours column\<close>

lemma splitLoop_no_sep: "sep \<notin> set a \<Longrightarrow> splitLoop sep cur a = [cur @ a]"
  by (induction a arbitrary: cur) auto

lemma splitLoop_sep:
  "sep \<notin> set a \<Longrightarrow> splitLoop sep cur (a @ sep # rest) = (cur @ a) # splitLoop sep [] rest"
  by (induction a arbitrary: cur) auto

lemma split_not_Nil: "split sep s \<noteq> []"
proof -
  have "splitLoop sep cur s \<noteq> []" for cur
    by (induction s arbitrary: cur) simp_all
  then show ?thesis by (simp add: split_def)
qed

lemma split_length_sep: "sep \<in> set s \<Longrightarrow> length (split sep s) \<ge> 2"
proof -
  have "sep \<in> set s \<Longrightarrow> length (splitLoop sep cur s) \<ge> 2" for cur
  proof (induction s arbitrary: cur)
    case Nil
    then show ?case by simp
  next
    case (Cons c s)
    have "splitLoop sep [] s \<noteq> []" using split_not_Nil[of sep s] by (simp add: split_def)
    then have "length (splitLoop sep [] s) \<ge> 1" by (cases "splitLoop sep [] s") simp_all
    with Cons show ?case by auto
  qed
  then show "sep \<in> set s \<Longrightarrow> length (split sep s) \<ge> 2" by (simp add: split_def)
qed

lemma isNumeral_chars:
  assumes "isNumeral ds"
  shows "CHR '':'' \<notin> set ds" and "\<forall>c \<in> set ds. \<not> isSpace c" and "takeWhile isDigit ds = ds"
    and "dropWhile isSpace ds = ds" and "stripSign ds = (False, ds)" and "\<not> hasHexPrefix ds"
    and "ds \<noteq> []"
proof -
  from assms have ne: "ds \<noteq> []" and d: "\<forall>c \<in> set ds. isDigit c"
    by (simp_all add: isNumeral_def list_all_iff)
  have nd: "\<not> isDigit c" if "c \<in> set '':+-x X''  \<or> isSpace c" for c
    using that by (auto simp: isDigit_def isSpace_def)
  show "ds \<noteq> []" by (rule ne)
  show "CHR '':'' \<notin> set ds" using d nd by auto
  show sp: "\<forall>c \<in> set ds. \<not> isSpace c" using d nd by auto
  show "takeWhile isDigit ds = ds" using d by simp
  from ne obtain c cs where c: "ds = c # cs" by (cases ds) auto
  with sp show "dropWhile isSpace ds = ds" by simp
  from c d have "isDigit c" by simp
  with nd[of c] have "c \<noteq> CHR ''-''" "c \<noteq> CHR ''+''" by auto
  with c show "stripSign ds = (False, ds)" by (simp add: stripSign_def)
  show "\<not> hasHexPrefix ds"
  proof (cases cs)
    case Nil
    with c show ?thesis by (simp add: hasHexPrefix_def)
  next
    case (Cons e es)
    with c d have "isDigit e" by simp
    with nd[of e] have "e \<noteq> CHR ''x''" "e \<noteq> CHR ''X''" by auto
    with c Cons show ?thesis by (simp add: hasHexPrefix_def)
  qed
qed

lemma parseInt_numeral:
  assumes "isNumeral ds"
  shows "parseInt ds = Some (int (decValue ds))"
  unfolding parseInt_def isNumeral_chars(4)[OF assms] isNumeral_chars(5)[OF assms]
  using isNumeral_chars(6,7)[OF assms]
  by (simp add: Let_def isNumeral_chars(3)[OF assms])

lemma trim_nonempty: "c \<in> set s \<Longrightarrow> \<not> isSpace c \<Longrightarrow> trim s \<noteq> []"
proof -
  assume "c \<in> set s" "\<not> isSpace c"
  then have "dropWhile isSpace s \<noteq> []" by auto
  then obtain d t where dt: "dropWhile isSpace s = d # t" by (cases "dropWhile isSpace s") auto
  then have "\<not> isSpace d" by (metis hd_dropWhile list.sel(1) list.distinct(1))
  have "dropWhile isSpace (rev t @ [d]) \<noteq> []"
    using \<open>\<not> isSpace d\<close> by (simp add: dropWhile_append)
  with dt show ?thesis by (simp add: trim_def)
qed

lemma colon_not_space: "\<not> isSpace (CHR '':'')"
  by (simp add: isSpace_def)

lemma split_hms:
  assumes "isNumeral h" "isNumeral m" "isNumeral s"
  shows "split (CHR '':'') (h @ CHR '':'' # m @ CHR '':'' # s) = [h, m, s]"
  using isNumeral_chars(1)[OF assms(1)] isNumeral_chars(1)[OF assms(2)] isNumeral_chars(1)[OF assms(3)]
  by (simp add: split_def splitLoop_sep splitLoop_no_sep)

lemma routes_productiveHours_hms:
  assumes "isNumeral h" "isNumeral m" "isNumeral s"
  shows "routes_productiveHours (h @ '':'' @ m @ '':'' @ s)
           = Num (of_nat (decValue h) + of_nat (decValue m) / 60 + of_nat (decValue s) / 3600)"
proof -
  let ?f = "h @ '':'' @ m @ '':'' @ s"
  have "trim ?f \<noteq> []" by (rule trim_nonempty[of "CHR '':''"]) (simp_all add: colon_not_space)
  then show ?thesis
    by (simp add: routes_productiveHours_def split_hms[OF assms] parseInt_numeral assms)
qed

lemma parseProductiveHours_hms:
  assumes "isNumeral h" "isNumeral m" "isNumeral s"
  shows "parseProductiveHours (h @ '':'' @ m @ '':'' @ s)
           = Num (of_nat (decValue h) + of_nat (decValue m) / 60 + of_nat (decValue s) / 3600)"
  by (simp add: parseProductiveHours_def Let_def split_hms[OF assms] parseInt_numeral assms intOrZero_def)

lemma productiveHours_decimal:
  assumes "CHR '':'' \<notin> set f"
  shows "trim f \<noteq> [] \<Longrightarrow> routes_productiveHours f = orZero (parseFloat f)"
    and "trim f = [] \<Longrightarrow> routes_productiveHours f = Num 0"
    and "parseProductiveHours f = orZero (parseFloat f)"
proof -
  show "trim f \<noteq> [] \<Longrightarrow> routes_productiveHours f = orZero (parseFloat f)"
    using assms by (auto simp: routes_productiveHours_def trim_def)
  show "trim f = [] \<Longrightarrow> routes_productiveHours f = Num 0"
    by (simp add: routes_productiveHours_def)
  show "parseProductiveHours f = orZero (parseFloat f)"
    using assms by (cases "parseFloat f") (simp_all add: parseProductiveHours_def orZero_def)
qed

lemma parseFloat_blank: "trim f = [] \<Longrightarrow> parseFloat f = NaN"
proof -
  assume "trim f = []"
  then have e: "dropWhile isSpace f = []"
    using trim_nonempty[of _ f] by auto
  show ?thesis unfolding parseFloat_def e by (simp add: stripSign_def)
qed

lemma productiveHours_unparseable_decimal:
  "CHR '':'' \<notin> set f \<Longrightarrow> parseFloat f = NaN \<Longrightarrow>
     routes_productiveHours f = Num 0 \<and> parseProductiveHours f = Num 0"
  using productiveHours_decimal[of f] by (cases "trim f = []") (simp_all add: orZero_def)

lemma productiveHours_empty:
  "routes_productiveHours [] = Num 0 \<and> parseProductiveHours [] = Num 0"
  using productiveHours_unparseable_decimal[of "[]"] parseFloat_blank[of "[]"]
  by (simp add: trim_def)

lemma productiveHours_example:
  "routes_productiveHours ''114:39:00'' = Num (2293 / 20) \<and> parseProductiveHours ''114:39:00'' = Num (2293 / 20)
   \<and> (2293 / 20 :: rat) = 114.65"
  by code_simp

text \<open>
  C4.  The field \<open>ab:cd:ef\<close> holds a colon and no number.  The upload route decodes it
  to \<open>NaN\<close>, not to 0, and the row is then refused by the schema check; a field
  \<open>1:30\<close> with two parts is \<open>NaN\<close> as well.  \<open>CSVParser.parseProductiveHours\<close>
  decodes the same fields to 0 and to 1.5.  The other parts of the rule hold for both
  (lemmas \<open>routes_productiveHours_hms\<close>, \<open>parseProductiveHours_hms\<close>,
  \<open>productiveHours_decimal\<close>, \<open>productiveHours_unparseable_decimal\<close>,
  \<open>productiveHours_empty\<close>).
\<close>

theorem routes_productiveHours_unparseable:
  "routes_productiveHours ''ab:cd:ef'' = NaN
   \<and> parseProductiveHours ''ab:cd:ef'' = Num 0
   \<and> routes_productiveHours ''1:30'' = NaN
   \<and> parseProductiveHours ''1:30'' = Num (3 / 2)
   \<and> processRow exSchema dbTie 0 ''1,Ann,Aug-25,ab:cd:ef,160,90''
        = Inl (RowException 2 ''Expected number, received nan'')"
  by code_simp


section \<open>The record validator\<close>












section \<open>Header matching\<close>

lemma headersMatch_iff:
  "headersMatch received expected \<longleftrightarrow>
     length received = length expected \<and>
     (\<forall>i < length expected. normalizeHeader (received ! i) = normalizeHeader (expected ! i))"
  by (auto simp: headersMatch_def list_all_iff)

lemma uploadCsv_header_mismatch:
  assumes "\<not> length (nonBlankLines csvContent) < 2"
    and "\<not> headersMatch (map cleanHeader (parseCSVLine (hd (nonBlankLines csvContent)))) expectedHeaders"
  shows "uploadCsv insertSchema db csvContent =
           (if headersMatch (map cleanHeader (parseCSVLine (hd (nonBlankLines csvContent)))) rosterHeaders
            then RosterFileGuidance expectedHeaders (map cleanHeader (parseCSVLine (hd (nonBlankLines csvContent))))
            else HeadersMismatch expectedHeaders (map cleanHeader (parseCSVLine (hd (nonBlankLines csvContent)))),
            db)"
  using assms by (simp add: uploadCsv_def Let_def)

text \<open>
  C6.  A roster file whose header row is written in lower case is rejected by the roster
  upload, which compares the headers with \<open>===\<close>; the helper \<open>headersMatch\<close> accepts
  the same headers, and the productivity upload, which uses the helper, recognises the
  file as a roster and sends the caller to the roster upload.  The roster upload also
  accepts a header row with a tenth column: it does not compare the lengths.  The
  productivity upload behaves as claimed (lemmas \<open>headersMatch_iff\<close> and
  \<open>uploadCsv_header_mismatch\<close>).
\<close>

theorem uploadRosterHeaders_exact_match:
  "uploadRosterHeaders rosterLowerCase =
     RosterHeadersMismatch rosterHeaders
       [''name'', ''id'', ''personal email'', ''work email'', ''work location'', ''position'',
        ''start date'', ''separation date'', ''birthday'']
   \<and> headersMatch
       [''name'', ''id'', ''personal email'', ''work email'', ''work location'', ''position'',
        ''start date'', ''separation date'', ''birthday''] rosterHeaders
   \<and> fst (uploadCsv exSchema dbTie rosterLowerCase) =
       RosterFileGuidance expectedHeaders
         [''name'', ''id'', ''personal email'', ''work email'', ''work location'', ''position'',
          ''start date'', ''separation date'', ''birthday'']
   \<and> uploadRosterHeaders rosterExtraColumn = RosterHeadersOk"
  by code_simp


section \<open>Row errors of the productivity upload\<close>












end
